theory Spec2Isabelle
  imports Main
begin

section \<open>Python values and string formatting\<close>

text \<open>
  The TLN output module (\<^verbatim>\<open>plaso/output/tln.py\<close>) builds its fields with
  \<^verbatim>\<open>str.format\<close> and \<^verbatim>\<open>str.replace\<close>. Strings are character lists.
  A value that reaches a \<^verbatim>\<open>{!s}\<close> conversion is either a string or an integer.
\<close>

datatype py_value = PyStr string | PyInt int

definition digit_char :: "nat \<Rightarrow> char" where
  "digit_char n = ''0123456789'' ! (n mod 10)"

text \<open>The decimal digits of a natural number, most significant first.\<close>

fun format_nat :: "nat \<Rightarrow> string" where
  "format_nat n =
     (if n < 10 then [digit_char n]
      else format_nat (n div 10) @ [digit_char (n mod 10)])"

declare format_nat.simps [simp del]

text \<open>\<^verbatim>\<open>'{0:d}'.format(n)\<close>: a minus sign for a negative integer, then the digits.\<close>

definition format_d :: "int \<Rightarrow> string" where
  "format_d n =
     (if n < 0 then CHR ''-'' # format_nat (nat (- n)) else format_nat (nat n))"

text \<open>\<^verbatim>\<open>'{0!s}'.format(v)\<close>, that is \<^verbatim>\<open>str(v)\<close>.\<close>

fun py_str :: "py_value \<Rightarrow> string" where
  "py_str (PyStr s) = s"
| "py_str (PyInt n) = format_d n"

text \<open>
  Reading a decimal numeral back, as \<^verbatim>\<open>int(s)\<close> does: the value of the digits, negated
  after a minus sign. It says which integer a decimal string stands for.
\<close>

definition digit_value :: "char \<Rightarrow> nat" where
  "digit_value c = length (takeWhile (\<lambda>d. d \<noteq> c) ''0123456789'')"

definition nat_of_decimal :: "string \<Rightarrow> nat" where
  "nat_of_decimal s = foldl (\<lambda>a c. 10 * a + digit_value c) 0 s"

definition int_of_decimal :: "string \<Rightarrow> int" where
  "int_of_decimal s =
     (case s of
        [] \<Rightarrow> 0
      | c # cs \<Rightarrow> if c = CHR ''-'' then - int (nat_of_decimal cs)
                  else int (nat_of_decimal (c # cs)))"

text \<open>
  \<^verbatim>\<open>s.replace(old, new)\<close>: every non-overlapping occurrence of \<open>old\<close>, found from
  the left, is replaced by \<open>new\<close>. With an empty \<open>old\<close> Python puts \<open>new\<close> before
  every character and at the end.
\<close>

function replace :: "string \<Rightarrow> string \<Rightarrow> string \<Rightarrow> string" where
  "replace [] old new = (if old = [] then new else [])"
| "replace (c # cs) old new =
     (if old = [] then new @ concat (map (\<lambda>x. x # new) (c # cs))
      else if take (length old) (c # cs) = old
           then new @ replace (drop (length old) (c # cs)) old new
           else c # replace cs old new)"
  by pat_completeness auto
termination
  by (relation "measure (\<lambda>(s, old, new). length s)") (auto simp: neq_Nil_conv)

section \<open>Events, event data and the output mediator\<close>

text \<open>
  An event carries its timestamp in microseconds since the epoch and a timestamp
  description that may be \<^verbatim>\<open>None\<close>. Event data is a bag of named attributes;
  \<^verbatim>\<open>getattr(event_data, name, default)\<close> reads one, the default standing in for
  an attribute the object does not have. The constructor of an event data sets
  \<^verbatim>\<open>data_type\<close>, to \<^verbatim>\<open>None\<close> unless a type is given, so this attribute is
  missing (an object of another class), \<^verbatim>\<open>None\<close>, or a string. Every other
  attribute (\<^verbatim>\<open>display_name\<close>, \<^verbatim>\<open>notes\<close>, ...) exists only once it has been set,
  to a string.
\<close>

record EventObject =
  timestamp :: int
  timestamp_desc :: "string option"

record EventData =
  data_type :: "string option option"
  attributes :: "string \<rightharpoonup> string"

definition getattr :: "EventData \<Rightarrow> string \<Rightarrow> string \<Rightarrow> string" where
  "getattr obj name dflt = (case attributes obj name of None \<Rightarrow> dflt | Some v \<Rightarrow> v)"

text \<open>
  \<^verbatim>\<open>getattr(event_data, 'data_type', default)\<close>: the value read is a string or
  \<^verbatim>\<open>None\<close>; the default is used only when the attribute is missing.
\<close>

definition getattr_data_type :: "EventData \<Rightarrow> string \<Rightarrow> string option" where
  "getattr_data_type obj dflt = (case data_type obj of None \<Rightarrow> Some dflt | Some v \<Rightarrow> v)"

text \<open>
  The output mediator is handed to the helper at construction. The helper reads its
  time zone and asks it for the formatted messages of an event data: a pair
  (message, short message), the message being \<^verbatim>\<open>None\<close> when no formatter matches
  the data type.
\<close>

record OutputMediator =
  timezone :: string
  GetFormattedMessages :: "EventData \<Rightarrow> string option \<times> string option"

text \<open>The helper object: its one attribute is \<^verbatim>\<open>_output_mediator\<close>.\<close>

record TLNFieldFormattingHelper =
  output_mediator :: OutputMediator

datatype error = NoFormatterFound string | TypeError string

text \<open>
  \<^verbatim>\<open>'{0:s}'.format(v)\<close> for a value that is a string or \<^verbatim>\<open>None\<close>: the string
  itself; \<^verbatim>\<open>None\<close> does not accept the format code and Python raises
  \<^verbatim>\<open>TypeError\<close>.
\<close>

definition format_s :: "string option \<Rightarrow> error + string" where
  "format_s v =
     (case v of
        None \<Rightarrow> Inl (TypeError ''unsupported format string passed to NoneType.__format__'')
      | Some s \<Rightarrow> Inr s)"

text \<open>
  A method call returns its value, or the exception it raised, together with the
  helper object as the call left it.
\<close>

type_synonym outcome = "(error + string) \<times> TLNFieldFormattingHelper"

text \<open>
  What the module calls and does not define: the ISO 8601 rendering of \<^verbatim>\<open>timelib\<close>,
  the POSIX conversion of \<^verbatim>\<open>dfdatetime\<close> (\<^verbatim>\<open>None\<close> when it has no value), and the
  formatting methods inherited from \<^verbatim>\<open>FieldFormattingHelper\<close>. They are parameters of
  the model. The event data stream is opaque to this module, hence the type variable.
\<close>

record 'eds collaborators =
  CopyToIsoFormat :: "int \<Rightarrow> string \<Rightarrow> string"
  CopyToPosixTimestamp :: "int \<Rightarrow> int option"
  FormatInode ::
    "TLNFieldFormattingHelper \<Rightarrow> EventObject \<Rightarrow> EventData \<Rightarrow> 'eds \<Rightarrow> py_value"
  FormatHostname ::
    "TLNFieldFormattingHelper \<Rightarrow> EventObject \<Rightarrow> EventData \<Rightarrow> 'eds \<Rightarrow> string"
  FormatSourceShort ::
    "TLNFieldFormattingHelper \<Rightarrow> EventObject \<Rightarrow> EventData \<Rightarrow> 'eds \<Rightarrow> string"
  FormatTimeZone ::
    "TLNFieldFormattingHelper \<Rightarrow> EventObject \<Rightarrow> EventData \<Rightarrow> 'eds \<Rightarrow> string"
  FormatUsername ::
    "TLNFieldFormattingHelper \<Rightarrow> EventObject \<Rightarrow> EventData \<Rightarrow> 'eds \<Rightarrow> string"

section \<open>The field formatting helper\<close>

definition DESCRIPTION_FIELD_DELIMITER :: string where
  "DESCRIPTION_FIELD_DELIMITER = '';''"

definition FormatDescription ::
  "'eds collaborators \<Rightarrow> TLNFieldFormattingHelper \<Rightarrow> EventObject \<Rightarrow> EventData \<Rightarrow> 'eds
     \<Rightarrow> outcome" where
  "FormatDescription env self event event_data event_data_stream =
     (let date_time_string =
            CopyToIsoFormat env (timestamp event) (timezone (output_mediator self));
          timestamp_description =
            (case timestamp_desc event of
               None \<Rightarrow> ''UNKNOWN''
             | Some d \<Rightarrow> if d = [] then ''UNKNOWN'' else d);
          message = fst (GetFormattedMessages (output_mediator self) event_data)
      in case message of
           None \<Rightarrow>
             (let data_type = getattr_data_type event_data ''UNKNOWN''
              in case format_s data_type of
                   Inl e \<Rightarrow> (Inl e, self)
                 | Inr s \<Rightarrow>
                     (Inl (NoFormatterFound
                        (''Unable to find event formatter for: '' @ s @ ''.'')), self))
         | Some m \<Rightarrow>
             (Inr (date_time_string @ ''; '' @ timestamp_description @ ''; '' @
                   replace m DESCRIPTION_FIELD_DELIMITER '' ''), self))"

definition FormatNotes ::
  "'eds collaborators \<Rightarrow> TLNFieldFormattingHelper \<Rightarrow> EventObject \<Rightarrow> EventData \<Rightarrow> 'eds
     \<Rightarrow> outcome" where
  "FormatNotes env self event event_data event_data_stream =
     (let inode = FormatInode env self event event_data event_data_stream;
          notes = getattr event_data ''notes'' ''''
      in if notes = []
         then (let display_name = getattr event_data ''display_name'' ''''
               in (Inr (''File: '' @ display_name @ '' inode: '' @ py_str inode), self))
         else (Inr notes, self))"

definition FormatTimestamp ::
  "'eds collaborators \<Rightarrow> TLNFieldFormattingHelper \<Rightarrow> EventObject \<Rightarrow> EventData \<Rightarrow> 'eds
     \<Rightarrow> outcome" where
  "FormatTimestamp env self event event_data event_data_stream =
     (let posix_timestamp = CopyToPosixTimestamp env (timestamp event);
          posix_timestamp =
            (case posix_timestamp of
               None \<Rightarrow> 0
             | Some p \<Rightarrow> if p = 0 then 0 else p)
      in (Inr (format_d posix_timestamp), self))"

text \<open>
  \<^verbatim>\<open>_FIELD_FORMAT_CALLBACKS\<close>: the dictionary from field name to the name of the
  method that formats the field, in the order of the source.
\<close>

definition FIELD_FORMAT_CALLBACKS :: "(string \<times> string) list" where
  "FIELD_FORMAT_CALLBACKS =
     [(''description'', ''_FormatDescription''),
      (''host'', ''_FormatHostname''),
      (''inode'', ''_FormatInode''),
      (''notes'', ''_FormatNotes''),
      (''source'', ''_FormatSourceShort''),
      (''time'', ''_FormatTimestamp''),
      (''tz'', ''_FormatTimeZone''),
      (''user'', ''_FormatUsername'')]"

text \<open>
  \<^verbatim>\<open>getattr(self, callback_name, None)\<close> on a helper object: the three methods the
  class defines, and the five it inherits. An inherited method returns its value and
  leaves the object alone; the inode, which may be an integer, is rendered with
  \<^verbatim>\<open>str\<close>.
\<close>

definition callback ::
  "'eds collaborators \<Rightarrow> string \<Rightarrow>
     (TLNFieldFormattingHelper \<Rightarrow> EventObject \<Rightarrow> EventData \<Rightarrow> 'eds \<Rightarrow> outcome) option" where
  "callback env callback_name =
     (if callback_name = ''_FormatDescription'' then Some (FormatDescription env)
      else if callback_name = ''_FormatNotes'' then Some (FormatNotes env)
      else if callback_name = ''_FormatTimestamp'' then Some (FormatTimestamp env)
      else if callback_name = ''_FormatHostname''
        then Some (\<lambda>self e d s. (Inr (FormatHostname env self e d s), self))
      else if callback_name = ''_FormatInode''
        then Some (\<lambda>self e d s. (Inr (py_str (FormatInode env self e d s)), self))
      else if callback_name = ''_FormatSourceShort''
        then Some (\<lambda>self e d s. (Inr (FormatSourceShort env self e d s), self))
      else if callback_name = ''_FormatTimeZone''
        then Some (\<lambda>self e d s. (Inr (FormatTimeZone env self e d s), self))
      else if callback_name = ''_FormatUsername''
        then Some (\<lambda>self e d s. (Inr (FormatUsername env self e d s), self))
      else None)"

section \<open>The two output modules\<close>

text \<open>
  Objects live in a store and are known by their reference; creating an object takes
  the next free reference. \<^verbatim>\<open>TLNFieldFormattingHelper(output_mediator)\<close> creates a
  helper whose \<^verbatim>\<open>_output_mediator\<close> is the argument.
\<close>

type_synonym ref = nat

type_synonym store = "TLNFieldFormattingHelper list"

definition TLNFieldFormattingHelper_init :: "OutputMediator \<Rightarrow> store \<Rightarrow> ref \<times> store" where
  "TLNFieldFormattingHelper_init mediator st =
     (length st, st @ [\<lparr>output_mediator = mediator\<rparr>])"

text \<open>
  Modelled from the spec: the delimited output writer \<^verbatim>\<open>shared_dsv.DSVOutputModule\<close>
  is not among the sources. It is "configured once with (Formatting Helper, ordered
  field-name list, delimiter, header line)"; the record keeps the arguments its
  constructor is called with.
\<close>

record DSVOutputModule =
  module_output_mediator :: OutputMediator
  field_formatting_helper :: ref
  field_names :: "string list"
  delimiter :: string
  header :: string

definition DSVOutputModule_init ::
  "OutputMediator \<Rightarrow> ref \<Rightarrow> string list \<Rightarrow> string \<Rightarrow> string \<Rightarrow> DSVOutputModule" where
  "DSVOutputModule_init mediator helper names delim head =
     \<lparr>module_output_mediator = mediator, field_formatting_helper = helper,
      field_names = names, delimiter = delim, header = head\<rparr>"

definition TLNOutputModule_FIELD_NAMES :: "string list" where
  "TLNOutputModule_FIELD_NAMES = [''time'', ''source'', ''host'', ''user'', ''description'']"

definition TLNOutputModule_HEADER :: string where
  "TLNOutputModule_HEADER = ''Time|Source|Host|User|Description''"

definition TLNOutputModule_init :: "OutputMediator \<Rightarrow> store \<Rightarrow> DSVOutputModule \<times> store" where
  "TLNOutputModule_init mediator st =
     (let (formatting_helper_object, st') = TLNFieldFormattingHelper_init mediator st
      in (DSVOutputModule_init mediator formatting_helper_object
            TLNOutputModule_FIELD_NAMES ''|'' TLNOutputModule_HEADER, st'))"

definition L2TTLNOutputModule_FIELD_NAMES :: "string list" where
  "L2TTLNOutputModule_FIELD_NAMES =
     [''time'', ''source'', ''host'', ''user'', ''description'', ''tz'', ''notes'']"

definition L2TTLNOutputModule_HEADER :: string where
  "L2TTLNOutputModule_HEADER = ''Time|Source|Host|User|Description|TZ|Notes''"

definition L2TTLNOutputModule_init :: "OutputMediator \<Rightarrow> store \<Rightarrow> DSVOutputModule \<times> store" where
  "L2TTLNOutputModule_init mediator st =
     (let (formatting_helper_object, st') = TLNFieldFormattingHelper_init mediator st
      in (DSVOutputModule_init mediator formatting_helper_object
            L2TTLNOutputModule_FIELD_NAMES ''|'' L2TTLNOutputModule_HEADER, st'))"

section \<open>Example collaborators and inputs\<close>

text \<open>
  The conversion of \<^verbatim>\<open>dfdatetime\<close> for a timestamp in microseconds: the number of
  seconds as a decimal, cut to an integer by \<^verbatim>\<open>int()\<close>, which drops the fraction
  (rounds toward zero).
\<close>

definition PosixTimeInMicroseconds_CopyToPosixTimestamp :: "int \<Rightarrow> int option" where
  "PosixTimeInMicroseconds_CopyToPosixTimestamp ts =
     Some (if ts < 0 then - ((- ts) div 1000000) else ts div 1000000)"

text \<open>
  The collaborators of the examples. The ISO 8601 rendering is given for the
  timestamps the examples use, in UTC; the inode is the \<^verbatim>\<open>inode\<close> attribute of the
  event data, or \<^verbatim>\<open>-\<close>.
\<close>

definition example_collaborators :: "unit collaborators" where
  "example_collaborators =
     \<lparr>CopyToIsoFormat =
        (\<lambda>ts tz. if ts = 1000000000000000 then ''2001-09-09T01:46:40+00:00''
                  else if ts = - 1000000 then ''1969-12-31T23:59:59+00:00''
                  else ''1970-01-01T00:00:00+00:00''),
      CopyToPosixTimestamp = PosixTimeInMicroseconds_CopyToPosixTimestamp,
      FormatInode = (\<lambda>self e d s. PyStr (getattr d ''inode'' ''-'')),
      FormatHostname = (\<lambda>self e d s. getattr d ''hostname'' ''-''),
      FormatSourceShort = (\<lambda>self e d s. ''LOG''),
      FormatTimeZone = (\<lambda>self e d s. timezone (output_mediator self)),
      FormatUsername = (\<lambda>self e d s. getattr d ''username'' ''-'')\<rparr>"

text \<open>A mediator that knows one data type, and a helper built on it.\<close>

definition example_mediator :: OutputMediator where
  "example_mediator =
     \<lparr>timezone = ''UTC'',
      GetFormattedMessages =
        (\<lambda>d. if data_type d = Some (Some ''test:login'')
              then (Some (getattr d ''text'' []), Some (getattr d ''text'' []))
              else (None, None))\<rparr>"

definition example_helper :: TLNFieldFormattingHelper where
  "example_helper = \<lparr>output_mediator = example_mediator\<rparr>"

definition example_event :: EventObject where
  "example_event = \<lparr>timestamp = 1000000000000000, timestamp_desc = Some ''WRITTEN''\<rparr>"

definition example_event_data :: EventData where
  "example_event_data =
     \<lparr>data_type = Some (Some ''test:login''),
      attributes =
        [''text'' \<mapsto> ''User; logged|in'',
         ''display_name'' \<mapsto> ''/var/log/auth.log'', ''inode'' \<mapsto> ''42'']\<rparr>"

text \<open>
  An event data as its constructor leaves it when no data type is given:
  \<^verbatim>\<open>data_type\<close> is \<^verbatim>\<open>None\<close> and nothing else is set. The mediator resolves no
  message for it.
\<close>

definition untyped_event_data :: EventData where
  "untyped_event_data = \<lparr>data_type = Some None, attributes = Map.empty\<rparr>"

section \<open>String replacement and decimal rendering\<close>

text \<open>Replacing one character by one character changes the string position by position.\<close>

lemma replace_single:
  "replace s [a] [b] = map (\<lambda>c. if c = a then b else c) s"
  by (induction s) auto

lemma digit_char_in: "digit_char n \<in> set ''0123456789''"
  unfolding digit_char_def by (rule nth_mem) simp

lemma format_nat_digits: "set (format_nat n) \<subseteq> set ''0123456789''"
proof (induction n rule: format_nat.induct)
  case (1 n)
  show ?case
  proof (cases "n < 10")
    case True
    then show ?thesis using digit_char_in [of n] by (subst format_nat.simps) simp
  next
    case False
    then show ?thesis using 1 digit_char_in [of "n mod 10"]
      by (subst format_nat.simps) simp
  qed
qed

lemma format_nat_nonempty: "format_nat n \<noteq> []"
  by (subst format_nat.simps) simp

lemma format_nat_0: "format_nat 0 = ''0''"
  by (simp add: format_nat.simps digit_char_def)

lemma format_d_0: "format_d 0 = ''0''"
  by (simp add: format_d_def format_nat_0)

lemma hd_format_nat: "hd (format_nat n) \<noteq> CHR ''-''"
  using format_nat_digits [of n] format_nat_nonempty [of n]
  by (cases "format_nat n") auto

lemma format_d_sign: "(hd (format_d n) = CHR ''-'') = (n < 0)"
  by (simp add: format_d_def hd_format_nat)

lemma format_d_chars: "set (format_d n) \<subseteq> set ''-0123456789''"
proof -
  have "set ''0123456789'' \<subseteq> set ''-0123456789''" by (simp add: subset_insertI2)
  then have "\<And>k. set (format_nat k) \<subseteq> set ''-0123456789''"
    using format_nat_digits by (rule order.trans [rotated])
  then show ?thesis by (simp add: format_d_def)
qed

lemma digit_value_digit_char: "digit_value (digit_char n) = n mod 10"
proof -
  have "n mod 10 = 0 \<or> n mod 10 = 1 \<or> n mod 10 = 2 \<or> n mod 10 = 3 \<or> n mod 10 = 4 \<or>
        n mod 10 = 5 \<or> n mod 10 = 6 \<or> n mod 10 = 7 \<or> n mod 10 = 8 \<or> n mod 10 = 9"
    by arith
  then show ?thesis
    by (elim disjE) (simp_all add: digit_value_def digit_char_def)
qed

lemma nat_of_decimal_snoc:
  "nat_of_decimal (s @ [c]) = 10 * nat_of_decimal s + digit_value c"
  by (simp add: nat_of_decimal_def)

lemma nat_of_decimal_format_nat: "nat_of_decimal (format_nat n) = n"
proof (induction n rule: format_nat.induct)
  case (1 n)
  show ?case
  proof (cases "n < 10")
    case True
    then show ?thesis
      by (subst format_nat.simps) (simp add: nat_of_decimal_def digit_value_digit_char)
  next
    case False
    then have "nat_of_decimal (format_nat n) =
                 10 * nat_of_decimal (format_nat (n div 10)) + digit_value (digit_char (n mod 10))"
      by (subst format_nat.simps) (simp add: nat_of_decimal_snoc)
    also have "\<dots> = 10 * (n div 10) + n mod 10"
      using 1 False by (simp add: digit_value_digit_char)
    finally show ?thesis by simp
  qed
qed

lemma int_of_decimal_format_d: "int_of_decimal (format_d n) = n"
proof (cases "n < 0")
  case True
  then show ?thesis
    by (simp add: int_of_decimal_def format_d_def nat_of_decimal_format_nat)
next
  case False
  obtain c cs where s: "format_nat (nat n) = c # cs"
    using format_nat_nonempty [of "nat n"] by (cases "format_nat (nat n)") auto
  have "c \<noteq> CHR ''-''"
    using hd_format_nat [of "nat n"] s by simp
  then have "int_of_decimal (c # cs) = int (nat_of_decimal (c # cs))"
    by (simp add: int_of_decimal_def)
  also have "\<dots> = int (nat n)"
    using nat_of_decimal_format_nat [of "nat n"] s by simp
  finally show ?thesis using False s by (simp add: format_d_def)
qed

section \<open>The description field\<close>

text \<open>
  C1. When the mediator resolves a message for the event data, \<^verbatim>\<open>_FormatDescription\<close>
  returns the ISO 8601 date and time, the timestamp description and the message, in
  this order, joined by \<^verbatim>\<open>"; "\<close>. The description is \<^verbatim>\<open>UNKNOWN\<close> when the event
  has none or an empty one, and every \<^verbatim>\<open>;\<close> of the message has become one space.
  The helper object is left as it was.
\<close>

theorem FormatDescription_resolved:
  assumes "fst (GetFormattedMessages (output_mediator self) event_data) = Some message"
  shows "FormatDescription env self event event_data event_data_stream =
     (Inr (CopyToIsoFormat env (timestamp event) (timezone (output_mediator self)) @ ''; '' @
           (if timestamp_desc event = None \<or> timestamp_desc event = Some []
            then ''UNKNOWN'' else the (timestamp_desc event)) @ ''; '' @
           map (\<lambda>c. if c = CHR '';'' then CHR '' '' else c) message), self)"
  using assms
  by (simp add: FormatDescription_def DESCRIPTION_FIELD_DELIMITER_def replace_single
           split: option.splits)

theorem FormatDescription_resolved_witness:
  "fst (GetFormattedMessages (output_mediator example_helper) example_event_data)
     = Some ''User; logged|in'' \<and>
   FormatDescription example_collaborators example_helper example_event example_event_data ()
     = (Inr ''2001-09-09T01:46:40+00:00; WRITTEN; User  logged|in'', example_helper)"
proof -
  have h: "fst (GetFormattedMessages (output_mediator example_helper) example_event_data)
             = Some ''User; logged|in''"
    by (simp add: example_helper_def example_mediator_def example_event_data_def getattr_def)
  show ?thesis
    using h FormatDescription_resolved [OF h, of example_collaborators example_event "()"]
    by (simp add: example_collaborators_def example_event_def example_helper_def
          example_mediator_def)
qed

text \<open>
  What \<^verbatim>\<open>_FormatDescription\<close> does when the mediator resolves no message, by the
  state of the \<^verbatim>\<open>data_type\<close> attribute: a missing attribute is reported as
  \<^verbatim>\<open>UNKNOWN\<close> and a string by itself, both in a \<^verbatim>\<open>NoFormatterFound\<close>; an attribute
  that is \<^verbatim>\<open>None\<close> makes the formatting of the error text fail with a
  \<^verbatim>\<open>TypeError\<close>. When a message is resolved a string is returned.
\<close>

lemma FormatDescription_unresolved_cases:
  "(fst (GetFormattedMessages (output_mediator self) event_data) = None \<longrightarrow>
      FormatDescription env self event event_data event_data_stream =
        (case data_type event_data of
           None \<Rightarrow>
             (Inl (NoFormatterFound ''Unable to find event formatter for: UNKNOWN.''), self)
         | Some None \<Rightarrow>
             (Inl (TypeError ''unsupported format string passed to NoneType.__format__''),
              self)
         | Some (Some t) \<Rightarrow>
             (Inl (NoFormatterFound (''Unable to find event formatter for: '' @ t @ ''.'')),
              self))) \<and>
   (fst (GetFormattedMessages (output_mediator self) event_data) \<noteq> None \<longrightarrow>
      (\<exists>s. FormatDescription env self event event_data event_data_stream = (Inr s, self)))"
  by (auto simp: FormatDescription_def getattr_data_type_def format_s_def
        split: option.splits)

text \<open>
  C2. The claim asks for a \<^verbatim>\<open>NoFormatterFound\<close> naming the data type whenever the
  mediator resolves no message. For an event data whose \<^verbatim>\<open>data_type\<close> is \<^verbatim>\<open>None\<close>,
  as its constructor leaves it, the mediator resolves no message and the call ends in
  a \<^verbatim>\<open>TypeError\<close>: the \<^verbatim>\<open>UNKNOWN\<close> default of \<^verbatim>\<open>getattr\<close> covers a missing
  attribute only.
\<close>

theorem FormatDescription_data_type_None:
  "fst (GetFormattedMessages (output_mediator example_helper) untyped_event_data) = None \<and>
   FormatDescription example_collaborators example_helper example_event
       untyped_event_data ()
     = (Inl (TypeError ''unsupported format string passed to NoneType.__format__''),
        example_helper)"
  by (simp add: FormatDescription_def getattr_data_type_def format_s_def
        untyped_event_data_def example_helper_def example_mediator_def)

section \<open>The time field\<close>

text \<open>
  An event one second before the epoch: the conversion yields \<open>-1\<close>, which is not
  replaced, and the field is the negative number \<^verbatim>\<open>-1\<close>.
\<close>

theorem FormatTimestamp_negative_counterexample:
  "fst (FormatTimestamp example_collaborators example_helper
          \<lparr>timestamp = - 1000000, timestamp_desc = None\<rparr> untyped_event_data ())
     = Inr (format_d (- 1)) \<and>
   format_d (- 1) = ''-1''"
  by (simp add: FormatTimestamp_def example_collaborators_def
        PosixTimeInMicroseconds_CopyToPosixTimestamp_def format_d_def format_nat.simps
        digit_char_def)

text \<open>
  C3, as the code has it. \<^verbatim>\<open>_FormatTimestamp\<close> returns the decimal rendering of a whole
  number of seconds: the value of the POSIX conversion, or \<open>0\<close> when the conversion
  has no value. The string holds digits only, after a minus sign that is there
  exactly when the number is negative; when the conversion has no value the string
  is \<^verbatim>\<open>0\<close>.
\<close>

theorem FormatTimestamp_decimal:
  "\<exists>n. FormatTimestamp env self event event_data event_data_stream = (Inr (format_d n), self) \<and>
       n = (case CopyToPosixTimestamp env (timestamp event) of None \<Rightarrow> 0 | Some p \<Rightarrow> p) \<and>
       int_of_decimal (format_d n) = n \<and>
       set (format_d n) \<subseteq> set ''-0123456789'' \<and>
       (hd (format_d n) = CHR ''-'') = (n < 0) \<and>
       (CopyToPosixTimestamp env (timestamp event) = None \<longrightarrow> format_d n = ''0'')"
proof -
  let ?n = "case CopyToPosixTimestamp env (timestamp event) of None \<Rightarrow> 0 | Some p \<Rightarrow> p"
  show ?thesis
  proof (rule exI [of _ ?n], intro conjI)
    show "FormatTimestamp env self event event_data event_data_stream =
            (Inr (format_d ?n), self)"
      by (simp add: FormatTimestamp_def split: option.splits)
    show "?n = ?n" by (rule refl)
    show "int_of_decimal (format_d ?n) = ?n"
      by (rule int_of_decimal_format_d)
    show "set (format_d ?n) \<subseteq> set ''-0123456789''"
      by (rule format_d_chars)
    show "(hd (format_d ?n) = CHR ''-'') = (?n < 0)"
      by (rule format_d_sign)
    show "CopyToPosixTimestamp env (timestamp event) = None \<longrightarrow> format_d ?n = ''0''"
      by (simp add: format_d_0)
  qed
qed

theorem FormatTimestamp_decimal_witness:
  "CopyToPosixTimestamp (example_collaborators\<lparr>CopyToPosixTimestamp := \<lambda>ts. None\<rparr>)
       (timestamp example_event) = None \<and>
   FormatTimestamp (example_collaborators\<lparr>CopyToPosixTimestamp := \<lambda>ts. None\<rparr>)
       example_helper example_event untyped_event_data () = (Inr ''0'', example_helper)"
  using FormatTimestamp_decimal [of "example_collaborators\<lparr>CopyToPosixTimestamp := \<lambda>ts. None\<rparr>"
          example_helper example_event untyped_event_data "()"]
  by simp

section \<open>The notes field\<close>

text \<open>
  C4. When the event data has no \<^verbatim>\<open>notes\<close> attribute, \<^verbatim>\<open>_FormatNotes\<close> returns
  \<^verbatim>\<open>File: <display_name> inode: <inode>\<close>, the display name being empty when the
  attribute is absent and the inode being what \<^verbatim>\<open>_FormatInode\<close> returns for the same
  arguments. When the \<^verbatim>\<open>notes\<close> attribute is a non-empty string, that string is
  returned as it is.
\<close>

theorem FormatNotes_absent_or_verbatim:
  "(attributes event_data ''notes'' = None \<longrightarrow>
      FormatNotes env self event event_data event_data_stream =
        (Inr (''File: '' @
              (case attributes event_data ''display_name'' of None \<Rightarrow> [] | Some d \<Rightarrow> d) @
              '' inode: '' @ py_str (FormatInode env self event event_data event_data_stream)),
         self)) \<and>
   (\<forall>n. attributes event_data ''notes'' = Some n \<and> n \<noteq> [] \<longrightarrow>
      FormatNotes env self event event_data event_data_stream = (Inr n, self))"
  by (simp add: FormatNotes_def getattr_def split: option.splits)

theorem FormatNotes_absent_or_verbatim_witness:
  "attributes example_event_data ''notes'' = None \<and>
   FormatNotes example_collaborators example_helper example_event example_event_data ()
     = (Inr ''File: /var/log/auth.log inode: 42'', example_helper) \<and>
   attributes (example_event_data\<lparr>attributes := [''notes'' \<mapsto> ''seen twice'']\<rparr>) ''notes''
     = Some ''seen twice'' \<and>
   ''seen twice'' \<noteq> [] \<and>
   FormatNotes example_collaborators example_helper example_event
       (example_event_data\<lparr>attributes := [''notes'' \<mapsto> ''seen twice'']\<rparr>) ()
     = (Inr ''seen twice'', example_helper)"
proof -
  have h1: "attributes example_event_data ''notes'' = None"
    by (simp add: example_event_data_def)
  have h2: "attributes (example_event_data\<lparr>attributes := [''notes'' \<mapsto> ''seen twice'']\<rparr>)
              ''notes'' = Some ''seen twice''"
    by simp
  show ?thesis
    using h1 h2
      FormatNotes_absent_or_verbatim [of example_event_data example_collaborators
        example_helper example_event "()"]
      FormatNotes_absent_or_verbatim
        [of "example_event_data\<lparr>attributes := [''notes'' \<mapsto> ''seen twice'']\<rparr>"
        example_collaborators example_helper example_event "()"]
    by (simp add: example_event_data_def example_collaborators_def getattr_def)
qed

text \<open>
  C10. When the \<^verbatim>\<open>notes\<close> attribute is present and empty, \<^verbatim>\<open>_FormatNotes\<close> does
  not return it: it builds the same \<^verbatim>\<open>File: <display_name> inode: <inode>\<close> text as
  for an absent attribute.
\<close>

theorem FormatNotes_empty_notes:
  assumes "attributes event_data ''notes'' = Some []"
  shows "FormatNotes env self event event_data event_data_stream =
        (Inr (''File: '' @
              (case attributes event_data ''display_name'' of None \<Rightarrow> [] | Some d \<Rightarrow> d) @
              '' inode: '' @ py_str (FormatInode env self event event_data event_data_stream)),
         self) \<and>
      fst (FormatNotes env self event event_data event_data_stream) \<noteq> Inr []"
  using assms by (simp add: FormatNotes_def getattr_def split: option.splits)

theorem FormatNotes_empty_notes_witness:
  "attributes (example_event_data\<lparr>attributes :=
       (attributes example_event_data)(''notes'' \<mapsto> [])\<rparr>) ''notes'' = Some [] \<and>
   FormatNotes example_collaborators example_helper example_event
       (example_event_data\<lparr>attributes :=
          (attributes example_event_data)(''notes'' \<mapsto> [])\<rparr>) ()
     = (Inr ''File: /var/log/auth.log inode: 42'', example_helper)"
proof -
  have h: "attributes (example_event_data\<lparr>attributes :=
             (attributes example_event_data)(''notes'' \<mapsto> [])\<rparr>) ''notes'' = Some []"
    by simp
  show ?thesis
    using h FormatNotes_empty_notes
              [of "example_event_data\<lparr>attributes :=
                     (attributes example_event_data)(''notes'' \<mapsto> [])\<rparr>"
                example_collaborators example_helper example_event "()"]
    by (simp add: example_event_data_def example_collaborators_def getattr_def)
qed

section \<open>The format variants\<close>

text \<open>
  C5. The TLN module hands the writer the fields \<^verbatim>\<open>time, source, host, user,
  description\<close>, the delimiter \<^verbatim>\<open>|\<close> and the header
  \<^verbatim>\<open>Time|Source|Host|User|Description\<close>; the extended module hands it the same
  fields followed by \<^verbatim>\<open>tz, notes\<close>, the delimiter \<^verbatim>\<open>|\<close> and the header
  \<^verbatim>\<open>Time|Source|Host|User|Description|TZ|Notes\<close>. This holds for every mediator
  and every store the modules are created in.
\<close>

theorem variants_configuration:
  "field_names (fst (TLNOutputModule_init mediator st)) =
     [''time'', ''source'', ''host'', ''user'', ''description''] \<and>
   delimiter (fst (TLNOutputModule_init mediator st)) = ''|'' \<and>
   header (fst (TLNOutputModule_init mediator st)) = ''Time|Source|Host|User|Description'' \<and>
   field_names (fst (L2TTLNOutputModule_init mediator st)) =
     [''time'', ''source'', ''host'', ''user'', ''description'', ''tz'', ''notes''] \<and>
   delimiter (fst (L2TTLNOutputModule_init mediator st)) = ''|'' \<and>
   header (fst (L2TTLNOutputModule_init mediator st)) =
     ''Time|Source|Host|User|Description|TZ|Notes''"
  by (simp add: TLNOutputModule_init_def L2TTLNOutputModule_init_def
        TLNFieldFormattingHelper_init_def DSVOutputModule_init_def
        TLNOutputModule_FIELD_NAMES_def TLNOutputModule_HEADER_def
        L2TTLNOutputModule_FIELD_NAMES_def L2TTLNOutputModule_HEADER_def)

text \<open>
  C6. Every field name of either module is a key of \<^verbatim>\<open>_FIELD_FORMAT_CALLBACKS\<close>, and
  the method the key names is one the helper has: looking a configured field up never
  meets an unknown name.
\<close>

theorem field_names_have_callbacks:
  "\<forall>name \<in> set TLNOutputModule_FIELD_NAMES \<union> set L2TTLNOutputModule_FIELD_NAMES.
     \<exists>callback_name f. map_of FIELD_FORMAT_CALLBACKS name = Some callback_name \<and>
                        callback env callback_name = Some f"
  by (simp add: TLNOutputModule_FIELD_NAMES_def L2TTLNOutputModule_FIELD_NAMES_def
        FIELD_FORMAT_CALLBACKS_def callback_def)

theorem field_names_have_callbacks_witness:
  "''notes'' \<in> set TLNOutputModule_FIELD_NAMES \<union> set L2TTLNOutputModule_FIELD_NAMES \<and>
   (\<exists>callback_name f. map_of FIELD_FORMAT_CALLBACKS ''notes'' = Some callback_name \<and>
                       callback example_collaborators callback_name = Some f)"
proof -
  have h: "''notes'' \<in> set TLNOutputModule_FIELD_NAMES \<union> set L2TTLNOutputModule_FIELD_NAMES"
    by (simp add: L2TTLNOutputModule_FIELD_NAMES_def)
  from field_names_have_callbacks [of example_collaborators] h
  have "\<exists>callback_name f. map_of FIELD_FORMAT_CALLBACKS ''notes'' = Some callback_name \<and>
                          callback example_collaborators callback_name = Some f"
    by (rule bspec)
  with h show ?thesis by (rule conjI)
qed

text \<open>
  The two modules created one after the other on the same mediator: the extended
  module's helper is not the object the TLN module holds.
\<close>

theorem helper_instance_counterexample:
  "field_formatting_helper (fst (TLNOutputModule_init example_mediator [])) \<noteq>
   field_formatting_helper
     (fst (L2TTLNOutputModule_init example_mediator
             (snd (TLNOutputModule_init example_mediator []))))"
  by (simp add: TLNOutputModule_init_def L2TTLNOutputModule_init_def
        TLNFieldFormattingHelper_init_def DSVOutputModule_init_def)

text \<open>
  C7, as the code has it. Each module creates a helper of its own, of the same class
  and on the mediator it is given: two objects, equal in content when the mediators
  are the same. Apart from the helper object, the two modules differ only in the
  field names and the header handed to the writer.
\<close>

theorem helper_instances_separate_equal:
  assumes "TLNOutputModule_init mediator st = (tln, st1)"
      and "L2TTLNOutputModule_init mediator st1 = (l2t, st2)"
  shows "field_formatting_helper tln \<noteq> field_formatting_helper l2t \<and>
         field_formatting_helper tln < length st2 \<and>
         field_formatting_helper l2t < length st2 \<and>
         st2 ! field_formatting_helper tln = \<lparr>output_mediator = mediator\<rparr> \<and>
         st2 ! field_formatting_helper l2t = \<lparr>output_mediator = mediator\<rparr> \<and>
         l2t = tln\<lparr>field_formatting_helper := field_formatting_helper l2t,
                    field_names := L2TTLNOutputModule_FIELD_NAMES,
                    header := L2TTLNOutputModule_HEADER\<rparr>"
  using assms
  by (auto simp: TLNOutputModule_init_def L2TTLNOutputModule_init_def
        TLNFieldFormattingHelper_init_def DSVOutputModule_init_def nth_append)

theorem helper_instances_separate_equal_witness:
  "TLNOutputModule_init example_mediator [] =
     (DSVOutputModule_init example_mediator 0 TLNOutputModule_FIELD_NAMES ''|''
        TLNOutputModule_HEADER, [example_helper]) \<and>
   L2TTLNOutputModule_init example_mediator [example_helper] =
     (DSVOutputModule_init example_mediator 1 L2TTLNOutputModule_FIELD_NAMES ''|''
        L2TTLNOutputModule_HEADER, [example_helper, example_helper]) \<and>
   (0::nat) \<noteq> 1 \<and>
   [example_helper, example_helper] ! 0 = \<lparr>output_mediator = example_mediator\<rparr> \<and>
   [example_helper, example_helper] ! 1 = \<lparr>output_mediator = example_mediator\<rparr>"
proof -
  have h1: "TLNOutputModule_init example_mediator [] =
     (DSVOutputModule_init example_mediator 0 TLNOutputModule_FIELD_NAMES ''|''
        TLNOutputModule_HEADER, [example_helper])"
    by (simp add: TLNOutputModule_init_def TLNFieldFormattingHelper_init_def
          example_helper_def)
  have h2: "L2TTLNOutputModule_init example_mediator [example_helper] =
     (DSVOutputModule_init example_mediator 1 L2TTLNOutputModule_FIELD_NAMES ''|''
        L2TTLNOutputModule_HEADER, [example_helper, example_helper])"
    by (simp add: L2TTLNOutputModule_init_def TLNFieldFormattingHelper_init_def
          example_helper_def)
  from helper_instances_separate_equal [OF h1 h2] h1 h2
  show ?thesis by (simp add: DSVOutputModule_init_def)
qed

section \<open>The row delimiter inside a description\<close>

text \<open>
  C9. Only the \<^verbatim>\<open>;\<close> of the message is replaced. When the resolved message holds a
  \<^verbatim>\<open>|\<close>, the returned description ends with the message, of the same length, with
  a \<^verbatim>\<open>|\<close> at exactly the positions where the message has one.
\<close>

theorem FormatDescription_keeps_row_delimiter:
  assumes "fst (GetFormattedMessages (output_mediator self) event_data) = Some message"
      and "CHR ''|'' \<in> set message"
  shows "\<exists>prefix msg.
           FormatDescription env self event event_data event_data_stream =
             (Inr (prefix @ msg), self) \<and>
           length msg = length message \<and>
           (\<forall>i < length message. (msg ! i = CHR ''|'') = (message ! i = CHR ''|'')) \<and>
           CHR ''|'' \<in> set (prefix @ msg)"
proof -
  let ?msg = "map (\<lambda>c. if c = CHR '';'' then CHR '' '' else c) message"
  let ?prefix = "CopyToIsoFormat env (timestamp event) (timezone (output_mediator self)) @
      ''; '' @
      (case timestamp_desc event of None \<Rightarrow> ''UNKNOWN''
       | Some d \<Rightarrow> if d = [] then ''UNKNOWN'' else d) @ ''; ''"
  have r: "FormatDescription env self event event_data event_data_stream =
        (Inr (?prefix @ ?msg), self)"
    using assms(1)
    by (simp add: FormatDescription_def DESCRIPTION_FIELD_DELIMITER_def replace_single)
  have l: "length ?msg = length message" by simp
  have p: "\<forall>i < length message. (?msg ! i = CHR ''|'') = (message ! i = CHR ''|'')"
    by simp
  have "CHR ''|'' \<in> set ?msg"
    using assms(2) by (auto simp: image_iff)
  then have m: "CHR ''|'' \<in> set (?prefix @ ?msg)" by simp
  show ?thesis
    using r l p m by (intro exI [of _ ?prefix] exI [of _ ?msg] conjI)
qed

theorem FormatDescription_keeps_row_delimiter_witness:
  "fst (GetFormattedMessages (output_mediator example_helper) example_event_data)
     = Some ''User; logged|in'' \<and>
   CHR ''|'' \<in> set ''User; logged|in'' \<and>
   (\<exists>prefix msg.
      FormatDescription example_collaborators example_helper example_event
          example_event_data () = (Inr (prefix @ msg), example_helper) \<and>
      length msg = length ''User; logged|in'' \<and>
      (\<forall>i < length ''User; logged|in''.
          (msg ! i = CHR ''|'') = (''User; logged|in'' ! i = CHR ''|'')) \<and>
      CHR ''|'' \<in> set (prefix @ msg))"
proof -
  have h1: "fst (GetFormattedMessages (output_mediator example_helper) example_event_data)
             = Some ''User; logged|in''"
    by (simp add: example_helper_def example_mediator_def example_event_data_def getattr_def)
  have h2: "CHR ''|'' \<in> set ''User; logged|in''"
    by simp
  from h1 h2
    FormatDescription_keeps_row_delimiter [OF h1 h2, of example_collaborators example_event "()"]
  show ?thesis by (intro conjI)
qed

end
